theory Spec2Isabelle
  imports Main "HOL-Library.Char_ord" "HOL-Library.List_Lexorder"
begin

section \<open>The pw user module of Salt (\<^verbatim>\<open>salt/modules/pw_user.py\<close>)\<close>

text \<open>
  The module drives the BSD \<^verbatim>\<open>pw\<close> tool: every operation builds a command line, hands
  it to the execution function of Salt (\<^verbatim>\<open>cmd.run\<close>, \<^verbatim>\<open>cmd.run_all\<close>), and reads the
  password and group databases through Python's \<^verbatim>\<open>pwd\<close> and \<^verbatim>\<open>grp\<close> modules.
  The embedding makes these collaborators explicit: the databases are fields of a
  \<open>world\<close>, the execution function is a parameter that maps a command and a world to
  a result and a new world, and every command handed to it is logged.
\<close>

subsection \<open>Python library functions used by the module\<close>

text \<open>\<^verbatim>\<open>str.split(sep)\<close> for a one-character separator: never returns the empty list.\<close>

fun split :: "char \<Rightarrow> string \<Rightarrow> string list" where
  "split sep [] = [[]]"
| "split sep (c # cs) =
     (if c = sep then [] # split sep cs
      else (case split sep cs of [] \<Rightarrow> [[c]] | w # ws \<Rightarrow> (c # w) # ws))"

text \<open>\<^verbatim>\<open>sep.join(xs)\<close>.\<close>

fun join :: "string \<Rightarrow> string list \<Rightarrow> string" where
  "join sep [] = []"
| "join sep [x] = x"
| "join sep (x # y # ys) = x @ sep @ join sep (y # ys)"

text \<open>\<^verbatim>\<open>'{0}'.format(n)\<close> for an integer: its decimal numeral, with a minus sign below zero.\<close>

definition digit :: "nat \<Rightarrow> char" where
  "digit d = ''0123456789'' ! d"

fun str_nat :: "nat \<Rightarrow> string" where
  "str_nat n =
     (if n < 10 then [digit n]
      else str_nat (n div 10) @ [digit (n mod 10)])"

declare str_nat.simps [simp del]

definition str_int :: "int \<Rightarrow> string" where
  "str_int i = (if i < 0 then CHR ''-'' # str_nat (nat (- i)) else str_nat (nat i))"

text \<open>
  \<^verbatim>\<open>os.path.dirname\<close> of posixpath:
  \<^verbatim>\<open>i = p.rfind('/') + 1; head = p[:i]\<close>, and trailing slashes are stripped from
  \<open>head\<close> unless it consists of slashes only.
\<close>

fun rfind_from :: "char \<Rightarrow> string \<Rightarrow> int \<Rightarrow> int \<Rightarrow> int" where
  "rfind_from c [] i found = found"
| "rfind_from c (x # xs) i found = rfind_from c xs (i + 1) (if x = c then i else found)"

definition rfind :: "char \<Rightarrow> string \<Rightarrow> int" where
  "rfind c p = rfind_from c p 0 (- 1)"

definition rstrip :: "char \<Rightarrow> string \<Rightarrow> string" where
  "rstrip c p = rev (dropWhile (\<lambda>x. x = c) (rev p))"

definition dirname :: "string \<Rightarrow> string" where
  "dirname p =
     (let i = rfind CHR ''/'' p + 1;
          head = take (nat i) p
      in if head \<noteq> [] \<and> head \<noteq> replicate (length head) CHR ''/''
         then rstrip CHR ''/'' head else head)"

subsection \<open>The host\<close>

text \<open>Entries of the password and group databases (\<^verbatim>\<open>pwd.struct_passwd\<close>, \<^verbatim>\<open>grp.struct_group\<close>).\<close>

record struct_passwd =
  pw_name :: string
  pw_passwd :: string
  pw_uid :: int
  pw_gid :: int
  pw_gecos :: string
  pw_dir :: string
  pw_shell :: string

record struct_group =
  gr_name :: string
  gr_passwd :: string
  gr_gid :: int
  gr_mem :: "string list"

text \<open>
  What the module can read of the operating system: the answer of \<^verbatim>\<open>pwd.getpwnam\<close> for
  each name (\<open>None\<close> where it raises \<^verbatim>\<open>KeyError\<close>), the enumeration \<^verbatim>\<open>pwd.getpwall()\<close>
  and the enumeration \<^verbatim>\<open>grp.getgrall()\<close>. They are three library calls and the module
  assumes no relation between them; neither does the model.
\<close>

record world =
  pwnam :: "string \<Rightarrow> struct_passwd option"
  pwall :: "struct_passwd list"
  grall :: "struct_group list"

text \<open>The dictionary returned by \<^verbatim>\<open>cmd.run_all\<close>.\<close>

record run_result =
  retcode :: int
  stdout :: string
  stderr :: string

text \<open>
  The execution collaborator runs a command line in a world and yields its result and
  the world it leaves behind. Nothing is assumed of it.
\<close>

type_synonym executor = "string \<Rightarrow> world \<Rightarrow> run_result \<times> world"

text \<open>The state the operations run in: the world and the commands executed so far.\<close>

record host =
  os :: world
  executed :: "string list"

datatype error = KeyError string

definition cmd_run_all :: "executor \<Rightarrow> string \<Rightarrow> host \<Rightarrow> run_result \<times> host" where
  "cmd_run_all ex cmd s =
     (let (r, w) = ex cmd (os s)
      in (r, \<lparr>os = w, executed = executed s @ [cmd]\<rparr>))"

text \<open>\<^verbatim>\<open>cmd.run\<close> runs the command the same way and returns its output only.\<close>

definition cmd_run :: "executor \<Rightarrow> string \<Rightarrow> host \<Rightarrow> string \<times> host" where
  "cmd_run ex cmd s = (let (r, s') = cmd_run_all ex cmd s in (stdout r, s'))"

definition getpwnam :: "host \<Rightarrow> string \<Rightarrow> error + struct_passwd" where
  "getpwnam s name =
     (case pwnam (os s) name of None \<Rightarrow> Inl (KeyError name) | Some data \<Rightarrow> Inr data)"

definition getpwall :: "host \<Rightarrow> struct_passwd list" where
  "getpwall s = pwall (os s)"

definition getgrall :: "host \<Rightarrow> struct_group list" where
  "getgrall s = grall (os s)"

subsection \<open>Queries\<close>

text \<open>
  \<^verbatim>\<open>list_groups\<close>: the loop adds the name of every group whose \<^verbatim>\<open>gr_mem\<close> holds the
  user to a set; the result is \<^verbatim>\<open>sorted(list(ugrp))\<close>.
\<close>

definition list_groups :: "host \<Rightarrow> string \<Rightarrow> string list" where
  "list_groups s name =
     sorted_list_of_set
       (fold (\<lambda>grp ugrp. if name \<in> set (gr_mem grp) then insert (gr_name grp) ugrp else ugrp)
          (getgrall s) {})"

text \<open>The dictionary built by \<^verbatim>\<open>info\<close>; field \<open>i_k\<close> is its key \<open>k\<close>.\<close>

record user_info =
  i_name :: string
  i_passwd :: string
  i_uid :: int
  i_gid :: int
  i_home :: string
  i_shell :: string
  i_groups :: "string list"

definition info :: "host \<Rightarrow> string \<Rightarrow> error + user_info" where
  "info s name =
     (case getpwnam s name of
        Inl e \<Rightarrow> Inl e
      | Inr data \<Rightarrow>
          Inr \<lparr>i_name = pw_name data, i_passwd = pw_passwd data, i_uid = pw_uid data,
               i_gid = pw_gid data, i_home = pw_dir data, i_shell = pw_shell data,
               i_groups = list_groups s name\<rparr>)"

text \<open>\<^verbatim>\<open>getent\<close>: the loop over \<^verbatim>\<open>pwd.getpwall()\<close>; an exception of \<^verbatim>\<open>info\<close> ends it.\<close>

fun getent_loop :: "host \<Rightarrow> struct_passwd list \<Rightarrow> user_info list \<Rightarrow> error + user_info list" where
  "getent_loop s [] ret = Inr ret"
| "getent_loop s (data # rest) ret =
     (case info s (pw_name data) of
        Inl e \<Rightarrow> Inl e
      | Inr i \<Rightarrow> getent_loop s rest (ret @ [i]))"

definition getent :: "host \<Rightarrow> error + user_info list" where
  "getent s = getent_loop s (getpwall s) []"

subsection \<open>add and delete\<close>

text \<open>
  The arguments as Python passes them: \<open>groups\<close> is a comma-separated string or a list
  of names, \<open>home\<close> is a boolean or a path, and an argument that may be left out
  (\<^verbatim>\<open>None\<close>) is an option.
\<close>

datatype groups_arg = Csv string | Names "string list"

datatype home_arg = HBool bool | HPath string

text \<open>\<^verbatim>\<open>if isinstance(groups, string_types): groups = groups.split(',')\<close>\<close>

fun split_groups :: "groups_arg \<Rightarrow> string list" where
  "split_groups (Csv g) = split CHR '','' g"
| "split_groups (Names gs) = gs"

text \<open>
  The command line of \<^verbatim>\<open>add\<close> (lines 37 to 53). Each \<^verbatim>\<open>if x:\<close> tests Python truth:
  \<^verbatim>\<open>None\<close>, the empty string, the empty list, zero and \<^verbatim>\<open>False\<close> are false.
\<close>

definition add_cmd ::
  "string \<Rightarrow> int option \<Rightarrow> int option \<Rightarrow> groups_arg option \<Rightarrow> home_arg \<Rightarrow> string option \<Rightarrow> string" where
  "add_cmd name uid gid groups home shell =
     (let groups = map_option split_groups groups;
          cmd = ''pw useradd '';
          cmd = (case shell of
                   Some sh \<Rightarrow> if sh \<noteq> [] then cmd @ ''-s '' @ sh @ '' '' else cmd
                 | None \<Rightarrow> cmd);
          cmd = (case uid of
                   Some u \<Rightarrow> if u \<noteq> 0 then cmd @ ''-u '' @ str_int u @ '' '' else cmd
                 | None \<Rightarrow> cmd);
          cmd = (case gid of
                   Some g \<Rightarrow> if g \<noteq> 0 then cmd @ ''-g '' @ str_int g @ '' '' else cmd
                 | None \<Rightarrow> cmd);
          cmd = (case groups of
                   Some gs \<Rightarrow> if gs \<noteq> [] then cmd @ ''-G '' @ join '','' gs @ '' '' else cmd
                 | None \<Rightarrow> cmd);
          cmd = (case home of
                   HBool b \<Rightarrow> if b then cmd @ ''-m '' else cmd
                 | HPath p \<Rightarrow> if p \<noteq> [] then cmd @ ''-m -b '' @ dirname p @ '' '' else cmd)
      in cmd @ ''-n '' @ name)"

text \<open>
  \<^verbatim>\<open>add\<close>: \<open>system\<close> and the extra keyword arguments (names with values, here strings)
  are accepted and never read. The result is \<^verbatim>\<open>not ret['retcode']\<close>.
\<close>

definition add ::
  "executor \<Rightarrow> string \<Rightarrow> int option \<Rightarrow> int option \<Rightarrow> groups_arg option \<Rightarrow> home_arg \<Rightarrow>
   string option \<Rightarrow> bool \<Rightarrow> (string \<times> string) list \<Rightarrow> host \<Rightarrow> (error + bool) \<times> host" where
  "add ex name uid gid groups home shell system kwargs s =
     (let cmd = add_cmd name uid gid groups home shell;
          (ret, s') = cmd_run_all ex cmd s
      in (Inr (\<not> (retcode ret \<noteq> 0)), s'))"

definition delete_cmd :: "string \<Rightarrow> bool \<Rightarrow> string" where
  "delete_cmd name remove =
     (let cmd = ''pw userdel '';
          cmd = (if remove then cmd @ ''-r '' else cmd)
      in cmd @ name)"

definition delete :: "executor \<Rightarrow> string \<Rightarrow> bool \<Rightarrow> bool \<Rightarrow> host \<Rightarrow> (error + bool) \<times> host" where
  "delete ex name remove force s =
     (let cmd = delete_cmd name remove;
          (ret, s') = cmd_run_all ex cmd s
      in (Inr (\<not> (retcode ret \<noteq> 0)), s'))"

subsection \<open>The attribute changes\<close>

text \<open>The command lines of the four changes (lines 102, 121, 140 and 160 to 163).\<close>

definition chuid_cmd :: "string \<Rightarrow> int \<Rightarrow> string" where
  "chuid_cmd name uid = ''pw usermod -u '' @ str_int uid @ '' '' @ name"

definition chgid_cmd :: "string \<Rightarrow> int \<Rightarrow> string" where
  "chgid_cmd name gid = ''pw usermod -g '' @ str_int gid @ '' '' @ name"

definition chshell_cmd :: "string \<Rightarrow> string \<Rightarrow> string" where
  "chshell_cmd name shell = ''pw usermod -s '' @ shell @ '' '' @ name"

definition chhome_cmd :: "string \<Rightarrow> string \<Rightarrow> bool \<Rightarrow> string" where
  "chhome_cmd name home persist =
     (let cmd = ''pw usermod -d '' @ home @ '' '';
          cmd = (if persist then cmd @ '' -m '' else cmd)
      in cmd @ name)"

text \<open>
  Each change reads the user with \<^verbatim>\<open>info\<close>, returns at once when the attribute is
  already the requested one, and otherwise runs its command with \<^verbatim>\<open>cmd.run\<close>, whose
  return value it drops, and reads the user again.
\<close>

definition chuid :: "executor \<Rightarrow> string \<Rightarrow> int \<Rightarrow> host \<Rightarrow> (error + bool) \<times> host" where
  "chuid ex name uid s =
     (case info s name of
        Inl e \<Rightarrow> (Inl e, s)
      | Inr pre_info \<Rightarrow>
          if uid = i_uid pre_info then (Inr True, s)
          else
            let cmd = chuid_cmd name uid;
                (out, s') = cmd_run ex cmd s
            in (case info s' name of
                  Inl e \<Rightarrow> (Inl e, s')
                | Inr post_info \<Rightarrow>
                    if i_uid post_info \<noteq> i_uid pre_info
                    then (Inr (i_uid post_info = uid), s')
                    else (Inr False, s')))"

definition chgid :: "executor \<Rightarrow> string \<Rightarrow> int \<Rightarrow> host \<Rightarrow> (error + bool) \<times> host" where
  "chgid ex name gid s =
     (case info s name of
        Inl e \<Rightarrow> (Inl e, s)
      | Inr pre_info \<Rightarrow>
          if gid = i_gid pre_info then (Inr True, s)
          else
            let cmd = chgid_cmd name gid;
                (out, s') = cmd_run ex cmd s
            in (case info s' name of
                  Inl e \<Rightarrow> (Inl e, s')
                | Inr post_info \<Rightarrow>
                    if i_gid post_info \<noteq> i_gid pre_info
                    then (Inr (i_gid post_info = gid), s')
                    else (Inr False, s')))"

definition chshell :: "executor \<Rightarrow> string \<Rightarrow> string \<Rightarrow> host \<Rightarrow> (error + bool) \<times> host" where
  "chshell ex name shell s =
     (case info s name of
        Inl e \<Rightarrow> (Inl e, s)
      | Inr pre_info \<Rightarrow>
          if shell = i_shell pre_info then (Inr True, s)
          else
            let cmd = chshell_cmd name shell;
                (out, s') = cmd_run ex cmd s
            in (case info s' name of
                  Inl e \<Rightarrow> (Inl e, s')
                | Inr post_info \<Rightarrow>
                    if i_shell post_info \<noteq> i_shell pre_info
                    then (Inr (i_shell post_info = shell), s')
                    else (Inr False, s')))"

definition chhome :: "executor \<Rightarrow> string \<Rightarrow> string \<Rightarrow> bool \<Rightarrow> host \<Rightarrow> (error + bool) \<times> host" where
  "chhome ex name home persist s =
     (case info s name of
        Inl e \<Rightarrow> (Inl e, s)
      | Inr pre_info \<Rightarrow>
          if home = i_home pre_info then (Inr True, s)
          else
            let cmd = chhome_cmd name home persist;
                (out, s') = cmd_run ex cmd s
            in (case info s' name of
                  Inl e \<Rightarrow> (Inl e, s')
                | Inr post_info \<Rightarrow>
                    if i_home post_info \<noteq> i_home pre_info
                    then (Inr (i_home post_info = home), s')
                    else (Inr False, s')))"

text \<open>The command line of \<^verbatim>\<open>chgroups\<close> (lines 185 to 187), from the split group list.\<close>

definition chgroups_cmd :: "string \<Rightarrow> string list \<Rightarrow> bool \<Rightarrow> string" where
  "chgroups_cmd name groups append' =
     (let cmd = ''pw usermod -G '' @ join '','' groups @ '' -n '' @ name @ '' ''
      in if append' then cmd @ ''-a'' else cmd)"

text \<open>
  \<^verbatim>\<open>chgroups\<close>: \<open>ugrps\<close> is the user's group set before the command, \<open>agrps\<close> the one
  after it, and the result is \<^verbatim>\<open>len(ugrps - agrps) == 0\<close>.
\<close>

definition chgroups :: "executor \<Rightarrow> string \<Rightarrow> groups_arg \<Rightarrow> bool \<Rightarrow> host \<Rightarrow> (error + bool) \<times> host" where
  "chgroups ex name groups append' s =
     (let groups = split_groups groups;
          ugrps = set (list_groups s name)
      in if ugrps = set groups then (Inr True, s)
         else
           let cmd = chgroups_cmd name groups append';
               (out, s') = cmd_run ex cmd s;
               agrps = set (list_groups s' name)
           in (Inr (card (ugrps - agrps) = 0), s'))"

subsection \<open>Example hosts\<close>

text \<open>
  Concrete data to run the operations on: a password entry for \<open>alice\<close>, a world that
  knows her and nobody else, a host that has executed nothing yet, and an execution
  collaborator that reports a given exit code and leaves a given world behind.
\<close>

definition alice :: struct_passwd where
  "alice = \<lparr>pw_name = ''alice'', pw_passwd = ''*'', pw_uid = 1000, pw_gid = 1000,
            pw_gecos = ''Alice'', pw_dir = ''/home/alice'', pw_shell = ''/bin/sh''\<rparr>"

definition member_group :: "string \<Rightarrow> string list \<Rightarrow> struct_group" where
  "member_group n ms = \<lparr>gr_name = n, gr_passwd = ''*'', gr_gid = 0, gr_mem = ms\<rparr>"

definition alice_world :: "struct_passwd \<Rightarrow> struct_group list \<Rightarrow> world" where
  "alice_world e gs =
     \<lparr>pwnam = (\<lambda>n. if n = ''alice'' then Some e else None), pwall = [e], grall = gs\<rparr>"

definition boot :: "world \<Rightarrow> host" where
  "boot w = \<lparr>os = w, executed = []\<rparr>"

definition stub :: "int \<Rightarrow> world \<Rightarrow> executor" where
  "stub rc w' = (\<lambda>cmd w. (\<lparr>retcode = rc, stdout = [], stderr = []\<rparr>, w'))"

text \<open>What a run of \<^verbatim>\<open>pw usermod\<close> may leave of \<open>alice\<close>: a new uid, home and shell.\<close>

definition alice_after :: struct_passwd where
  "alice_after = alice\<lparr>pw_uid := 4376, pw_dir := ''/home/users/alice'', pw_shell := ''/bin/csh''\<rparr>"

text \<open>Group databases: one that lists \<open>alice\<close> twice under \<open>root\<close>, and two others.\<close>

definition root_wheel_root :: "struct_group list" where
  "root_wheel_root =
     [member_group ''root'' [''alice''], member_group ''wheel'' [''bob'', ''alice''],
      member_group ''root'' [''alice''], member_group ''alice'' [], member_group ''ops'' [''bob'']]"

definition staff_only :: "struct_group list" where
  "staff_only = [member_group ''staff'' [''alice''], member_group ''wheel'' [''bob'']]"

definition wheel_only :: "struct_group list" where
  "wheel_only = [member_group ''staff'' [], member_group ''wheel'' [''bob'', ''alice'']]"

text \<open>A world whose enumeration lists \<open>alice\<close> while the lookup by name finds nobody.\<close>

definition stale_world :: world where
  "stale_world = \<lparr>pwnam = (\<lambda>n. None), pwall = [alice], grall = []\<rparr>"

section \<open>Properties\<close>

subsection \<open>Running a command\<close>

lemma cmd_run_all_state:
  "snd (cmd_run_all ex cmd s) = \<lparr>os = snd (ex cmd (os s)), executed = executed s @ [cmd]\<rparr>"
  by (simp add: cmd_run_all_def split: prod.splits)

lemma cmd_run_all_result: "fst (cmd_run_all ex cmd s) = fst (ex cmd (os s))"
  by (simp add: cmd_run_all_def split: prod.splits)

lemma cmd_run_state:
  "snd (cmd_run ex cmd s) = \<lparr>os = snd (ex cmd (os s)), executed = executed s @ [cmd]\<rparr>"
  by (simp add: cmd_run_def cmd_run_all_def split: prod.splits)

lemma add_unfold:
  "add ex name uid gid groups home shell system kwargs s =
     (Inr (retcode (fst (ex (add_cmd name uid gid groups home shell) (os s))) = 0),
      \<lparr>os = snd (ex (add_cmd name uid gid groups home shell) (os s)),
       executed = executed s @ [add_cmd name uid gid groups home shell]\<rparr>)"
  by (simp add: add_def cmd_run_all_def Let_def split: prod.splits)

lemma delete_unfold:
  "delete ex name remove force s =
     (Inr (retcode (fst (ex (delete_cmd name remove) (os s))) = 0),
      \<lparr>os = snd (ex (delete_cmd name remove) (os s)),
       executed = executed s @ [delete_cmd name remove]\<rparr>)"
  by (simp add: delete_def cmd_run_all_def Let_def split: prod.splits)

subsection \<open>add and delete\<close>

lemma alice_cmd:
  "add_cmd ''alice'' (Some 1000) (Some 1000) (Some (Csv ''wheel,ops'')) (HBool True) (Some ''/bin/sh'')
     = ''pw useradd -s /bin/sh -u 1000 -g 1000 -G wheel,ops -m -n alice''"
  by (simp add: add_cmd_def str_int_def str_nat.simps digit_def)

text \<open>
  Claim C3. The call \<^verbatim>\<open>add("alice", uid=1000, gid=1000, groups="wheel,ops", home=True,
  shell="/bin/sh")\<close>, with any \<open>system\<close> and extra arguments, on any host and with any
  execution collaborator, hands exactly the command
  \<^verbatim>\<open>pw useradd -s /bin/sh -u 1000 -g 1000 -G wheel,ops -m -n alice\<close> to the collaborator,
  once, and returns true if and only if the exit code of that run is 0.
\<close>

theorem add_alice_scenario:
  "executed (snd (add ex ''alice'' (Some 1000) (Some 1000) (Some (Csv ''wheel,ops'')) (HBool True)
                   (Some ''/bin/sh'') system kwargs s))
     = executed s @ [''pw useradd -s /bin/sh -u 1000 -g 1000 -G wheel,ops -m -n alice'']
   \<and> fst (add ex ''alice'' (Some 1000) (Some 1000) (Some (Csv ''wheel,ops'')) (HBool True)
             (Some ''/bin/sh'') system kwargs s)
     = Inr (retcode (fst (ex ''pw useradd -s /bin/sh -u 1000 -g 1000 -G wheel,ops -m -n alice'' (os s))) = 0)"
  unfolding add_unfold alice_cmd by simp

text \<open>
  Claim C6. \<^verbatim>\<open>delete\<close> builds \<^verbatim>\<open>pw userdel -r <name>\<close> when \<open>remove\<close> is true and
  \<^verbatim>\<open>pw userdel <name>\<close> when it is false, and that is the one command it runs; \<open>force\<close>
  maps to no flag: the whole run (command, result, state) is the same for
  \<open>force = True\<close> and \<open>force = False\<close>.
\<close>

theorem delete_command:
  "delete_cmd name True = ''pw userdel -r '' @ name
   \<and> delete_cmd name False = ''pw userdel '' @ name
   \<and> executed (snd (delete ex name remove force s)) = executed s @ [delete_cmd name remove]
   \<and> delete ex name remove True s = delete ex name remove False s"
  unfolding delete_unfold by (simp add: delete_cmd_def)

theorem delete_alice_scenario:
  "executed (snd (delete (stub 0 stale_world) ''alice'' True True (boot (alice_world alice []))))
     = [''pw userdel -r alice'']
   \<and> executed (snd (delete (stub 0 stale_world) ''alice'' False True (boot (alice_world alice []))))
     = [''pw userdel alice'']
   \<and> fst (delete (stub 0 stale_world) ''alice'' True True (boot (alice_world alice []))) = Inr True"
  using delete_command [of "''alice''" "stub 0 stale_world" True True "boot (alice_world alice [])"]
    delete_command [of "''alice''" "stub 0 stale_world" False True "boot (alice_world alice [])"]
  by (simp add: boot_def delete_unfold stub_def)

text \<open>
  Claim C10. For fixed \<open>name\<close>, \<open>uid\<close>, \<open>gid\<close>, \<open>groups\<close>, \<open>home\<close> and \<open>shell\<close>, two
  runs of \<^verbatim>\<open>add\<close> that differ only in \<open>system\<close> or in the extra keyword arguments build
  the same command, return the same result and leave the same state.
\<close>

theorem add_ignores_system_and_kwargs:
  "add ex name uid gid groups home shell system kwargs s
     = add ex name uid gid groups home shell system' kwargs' s
   \<and> executed (snd (add ex name uid gid groups home shell system kwargs s))
     = executed s @ [add_cmd name uid gid groups home shell]"
  unfolding add_unfold by simp

text \<open>
  The command line of \<^verbatim>\<open>add\<close> is the fixed sequence of its optional parts: each part
  is there exactly when its argument is true in Python's sense.
\<close>

lemma add_cmd_parts:
  "add_cmd name uid gid groups home shell =
     ''pw useradd ''
     @ (case shell of Some sh \<Rightarrow> if sh \<noteq> [] then ''-s '' @ sh @ '' '' else [] | None \<Rightarrow> [])
     @ (case uid of Some u \<Rightarrow> if u \<noteq> 0 then ''-u '' @ str_int u @ '' '' else [] | None \<Rightarrow> [])
     @ (case gid of Some g \<Rightarrow> if g \<noteq> 0 then ''-g '' @ str_int g @ '' '' else [] | None \<Rightarrow> [])
     @ (case groups of
          Some gs \<Rightarrow> if split_groups gs \<noteq> [] then ''-G '' @ join '','' (split_groups gs) @ '' '' else []
        | None \<Rightarrow> [])
     @ (case home of
          HBool b \<Rightarrow> if b then ''-m '' else []
        | HPath p \<Rightarrow> if p \<noteq> [] then ''-m -b '' @ dirname p @ '' '' else [])
     @ ''-n '' @ name"
  by (simp add: add_cmd_def split: option.splits home_arg.splits)

text \<open>
  Claim C5. Each flag of \<^verbatim>\<open>add\<close> is to be emitted whenever its parameter is supplied,
  and \<^verbatim>\<open>-u <uid>\<close> for every supplied integer uid, 0 included. The code tests
  \<^verbatim>\<open>if uid:\<close>, and 0 is false in Python: \<^verbatim>\<open>add("alice", uid=0)\<close> runs
  \<^verbatim>\<open>pw useradd -m -n alice\<close>, with no \<^verbatim>\<open>-u\<close>. The same holds of \<^verbatim>\<open>gid=0\<close>, while
  \<^verbatim>\<open>chuid\<close> does pass uid 0 on.
\<close>

theorem add_drops_uid_zero:
  "add_cmd ''alice'' (Some 0) None None (HBool True) None = ''pw useradd -m -n alice''
   \<and> executed (snd (add ex ''alice'' (Some 0) None None (HBool True) None False [] s))
       = executed s @ [''pw useradd -m -n alice'']
   \<and> add_cmd ''alice'' (Some 1001) (Some 0) None (HBool True) None = ''pw useradd -u 1001 -m -n alice''
   \<and> chuid_cmd ''alice'' 0 = ''pw usermod -u 0 alice''"
  by (simp add: add_unfold add_cmd_def chuid_cmd_def str_int_def str_nat.simps digit_def)

subsection \<open>Queries\<close>

lemma fold_collect:
  "fold (\<lambda>grp ugrp. if name \<in> set (gr_mem grp) then insert (gr_name grp) ugrp else ugrp) gs A
     = A \<union> gr_name ` {g \<in> set gs. name \<in> set (gr_mem g)}"
  by (induction gs arbitrary: A) auto

lemma set_list_groups:
  "set (list_groups s name) = gr_name ` {g \<in> set (getgrall s). name \<in> set (gr_mem g)}"
  by (simp add: list_groups_def fold_collect)

text \<open>
  Claim C8. For every user name and every group database, \<^verbatim>\<open>list_groups\<close> returns a
  sorted list without duplicates whose elements are exactly the names of the groups
  whose member list holds the user name. Only the group database is read: whatever the
  password database says (the primary gid included), the result is the same.
\<close>

theorem list_groups_sorted_distinct_members:
  "sorted (list_groups s name) \<and> distinct (list_groups s name)
   \<and> set (list_groups s name) = gr_name ` {g \<in> set (getgrall s). name \<in> set (gr_mem g)}
   \<and> list_groups \<lparr>os = \<lparr>pwnam = pn, pwall = pa, grall = grall (os s)\<rparr>, executed = cmds\<rparr> name
       = list_groups s name"
  by (simp add: set_list_groups) (simp add: list_groups_def getgrall_def)

lemma list_groups_example:
  "list_groups (boot (alice_world alice root_wheel_root)) ''alice'' = [''root'', ''wheel'']"
  by code_simp

text \<open>
  The scenario of the specification: a user listed under \<open>root\<close>, \<open>wheel\<close> and \<open>root\<close>
  again, whose primary group \<open>alice\<close> does not list her, is in \<open>[root, wheel]\<close>.
\<close>

theorem list_groups_duplicate_membership:
  "list_groups (boot (alice_world alice root_wheel_root)) ''alice'' = [''root'', ''wheel'']
   \<and> sorted (list_groups (boot (alice_world alice root_wheel_root)) ''alice'')
   \<and> distinct (list_groups (boot (alice_world alice root_wheel_root)) ''alice'')"
  using list_groups_sorted_distinct_members [of "boot (alice_world alice root_wheel_root)" "''alice''"]
    list_groups_example
  by blast

lemma info_Some:
  "pwnam (os s) name = Some d \<Longrightarrow>
     info s name = Inr \<lparr>i_name = pw_name d, i_passwd = pw_passwd d, i_uid = pw_uid d,
               i_gid = pw_gid d, i_home = pw_dir d, i_shell = pw_shell d,
               i_groups = list_groups s name\<rparr>"
  by (simp add: info_def getpwnam_def)

lemma info_None: "pwnam (os s) name = None \<Longrightarrow> info s name = Inl (KeyError name)"
  by (simp add: info_def getpwnam_def)

lemma info_Inl_iff: "info s name = Inl e \<longleftrightarrow> e = KeyError name \<and> pwnam (os s) name = None"
  by (auto simp: info_def getpwnam_def split: option.splits)

lemma alice_known: "pwnam (os (boot (alice_world e gs))) ''alice'' = Some e"
  by (simp add: boot_def alice_world_def)

subsection \<open>The attribute changes\<close>

lemma chuid_same: "pwnam (os s) name = Some e \<Longrightarrow> chuid ex name (pw_uid e) s = (Inr True, s)"
  by (simp add: chuid_def info_Some)
lemma chgid_same: "pwnam (os s) name = Some e \<Longrightarrow> chgid ex name (pw_gid e) s = (Inr True, s)"
  by (simp add: chgid_def info_Some)
lemma chshell_same: "pwnam (os s) name = Some e \<Longrightarrow> chshell ex name (pw_shell e) s = (Inr True, s)"
  by (simp add: chshell_def info_Some)
lemma chhome_same: "pwnam (os s) name = Some e \<Longrightarrow> chhome ex name (pw_dir e) persist s = (Inr True, s)"
  by (simp add: chhome_def info_Some)
lemma chgroups_same:
  "set (list_groups s name) = set (split_groups groups) \<Longrightarrow> chgroups ex name groups a s = (Inr True, s)"
  by (simp add: chgroups_def)

text \<open>
  Claim C4. When the user's current attribute already equals the requested value,
  \<^verbatim>\<open>chuid\<close>, \<^verbatim>\<open>chgid\<close>, \<^verbatim>\<open>chshell\<close> and \<^verbatim>\<open>chhome\<close> return true and leave the host
  as it was: no command is handed to the execution collaborator and the world is
  untouched. So does \<^verbatim>\<open>chgroups\<close> when the user's groups and the requested groups are
  equal as sets.
\<close>

theorem unchanged_request_runs_nothing:
  "(pwnam (os s) name = Some e \<longrightarrow>
      chuid ex name (pw_uid e) s = (Inr True, s)
    \<and> chgid ex name (pw_gid e) s = (Inr True, s)
    \<and> chshell ex name (pw_shell e) s = (Inr True, s)
    \<and> chhome ex name (pw_dir e) persist s = (Inr True, s))
   \<and> (set (list_groups s name) = set (split_groups groups) \<longrightarrow>
      chgroups ex name groups a s = (Inr True, s))"
  by (simp add: chuid_same chgid_same chshell_same chhome_same chgroups_same)

theorem unchanged_request_runs_nothing_witness:
  "pwnam (os (boot (alice_world alice root_wheel_root))) ''alice'' = Some alice
   \<and> set (list_groups (boot (alice_world alice root_wheel_root)) ''alice'')
       = set (split_groups (Csv ''wheel,root''))
   \<and> chuid (stub 1 stale_world) ''alice'' 1000 (boot (alice_world alice root_wheel_root))
       = (Inr True, boot (alice_world alice root_wheel_root))
   \<and> chshell (stub 1 stale_world) ''alice'' ''/bin/sh'' (boot (alice_world alice root_wheel_root))
       = (Inr True, boot (alice_world alice root_wheel_root))
   \<and> chgroups (stub 1 stale_world) ''alice'' (Csv ''wheel,root'') False
        (boot (alice_world alice root_wheel_root))
       = (Inr True, boot (alice_world alice root_wheel_root))
   \<and> executed (boot (alice_world alice root_wheel_root)) = []"
proof -
  have known: "pwnam (os (boot (alice_world alice root_wheel_root))) ''alice'' = Some alice"
    by (rule alice_known)
  have groups: "set (list_groups (boot (alice_world alice root_wheel_root)) ''alice'')
                  = set (split_groups (Csv ''wheel,root''))"
    by (auto simp: list_groups_example)
  note t = unchanged_request_runs_nothing [where s = "boot (alice_world alice root_wheel_root)"
      and name = "''alice''" and e = alice and ex = "stub 1 stale_world"
      and groups = "Csv ''wheel,root''" and a = False]
  from t [THEN conjunct1, THEN mp, OF known] t [THEN conjunct2, THEN mp, OF groups] known groups
  show ?thesis by (simp add: alice_def boot_def)
qed

lemma chuid_changed:
  assumes "pwnam (os s) name = Some pre" and "uid \<noteq> pw_uid pre"
  shows "chuid ex name uid s =
    (let s' = snd (cmd_run ex (chuid_cmd name uid) s)
     in (case pwnam (os s') name of
           None \<Rightarrow> (Inl (KeyError name), s')
         | Some post \<Rightarrow> (Inr (if pw_uid post = pw_uid pre then False else pw_uid post = uid), s')))"
  using assms
  by (simp add: chuid_def info_Some Let_def case_prod_beta info_def getpwnam_def split: option.split)

lemma chgid_changed:
  assumes "pwnam (os s) name = Some pre" and "gid \<noteq> pw_gid pre"
  shows "chgid ex name gid s =
    (let s' = snd (cmd_run ex (chgid_cmd name gid) s)
     in (case pwnam (os s') name of
           None \<Rightarrow> (Inl (KeyError name), s')
         | Some post \<Rightarrow> (Inr (if pw_gid post = pw_gid pre then False else pw_gid post = gid), s')))"
  using assms
  by (simp add: chgid_def info_Some Let_def case_prod_beta info_def getpwnam_def split: option.split)

lemma chshell_changed:
  assumes "pwnam (os s) name = Some pre" and "shell \<noteq> pw_shell pre"
  shows "chshell ex name shell s =
    (let s' = snd (cmd_run ex (chshell_cmd name shell) s)
     in (case pwnam (os s') name of
           None \<Rightarrow> (Inl (KeyError name), s')
         | Some post \<Rightarrow> (Inr (if pw_shell post = pw_shell pre then False else pw_shell post = shell), s')))"
  using assms
  by (simp add: chshell_def info_Some Let_def case_prod_beta info_def getpwnam_def split: option.split)

lemma chhome_changed:
  assumes "pwnam (os s) name = Some pre" and "home \<noteq> pw_dir pre"
  shows "chhome ex name home persist s =
    (let s' = snd (cmd_run ex (chhome_cmd name home persist) s)
     in (case pwnam (os s') name of
           None \<Rightarrow> (Inl (KeyError name), s')
         | Some post \<Rightarrow> (Inr (if pw_dir post = pw_dir pre then False else pw_dir post = home), s')))"
  using assms
  by (simp add: chhome_def info_Some Let_def case_prod_beta info_def getpwnam_def split: option.split)

lemma chuid_verify:
  assumes "pwnam (os s) name = Some pre" and "uid \<noteq> pw_uid pre"
  shows "executed (snd (chuid ex name uid s)) = executed s @ [chuid_cmd name uid]"
    and "os (snd (chuid ex name uid s)) = snd (ex (chuid_cmd name uid) (os s))"
    and "pwnam (os (snd (chuid ex name uid s))) name = Some post \<Longrightarrow>
           fst (chuid ex name uid s) = Inr (if pw_uid post = pw_uid pre then False else pw_uid post = uid)"
  by (simp_all add: chuid_changed [OF assms] Let_def cmd_run_state split: option.splits)

lemma chgid_verify:
  assumes "pwnam (os s) name = Some pre" and "gid \<noteq> pw_gid pre"
  shows "executed (snd (chgid ex name gid s)) = executed s @ [chgid_cmd name gid]"
    and "os (snd (chgid ex name gid s)) = snd (ex (chgid_cmd name gid) (os s))"
    and "pwnam (os (snd (chgid ex name gid s))) name = Some post \<Longrightarrow>
           fst (chgid ex name gid s) = Inr (if pw_gid post = pw_gid pre then False else pw_gid post = gid)"
  by (simp_all add: chgid_changed [OF assms] Let_def cmd_run_state split: option.splits)

lemma chshell_verify:
  assumes "pwnam (os s) name = Some pre" and "shell \<noteq> pw_shell pre"
  shows "executed (snd (chshell ex name shell s)) = executed s @ [chshell_cmd name shell]"
    and "os (snd (chshell ex name shell s)) = snd (ex (chshell_cmd name shell) (os s))"
    and "pwnam (os (snd (chshell ex name shell s))) name = Some post \<Longrightarrow>
           fst (chshell ex name shell s)
             = Inr (if pw_shell post = pw_shell pre then False else pw_shell post = shell)"
  by (simp_all add: chshell_changed [OF assms] Let_def cmd_run_state split: option.splits)

lemma chhome_verify:
  assumes "pwnam (os s) name = Some pre" and "home \<noteq> pw_dir pre"
  shows "executed (snd (chhome ex name home persist s)) = executed s @ [chhome_cmd name home persist]"
    and "os (snd (chhome ex name home persist s)) = snd (ex (chhome_cmd name home persist) (os s))"
    and "pwnam (os (snd (chhome ex name home persist s))) name = Some post \<Longrightarrow>
           fst (chhome ex name home persist s)
             = Inr (if pw_dir post = pw_dir pre then False else pw_dir post = home)"
  by (simp_all add: chhome_changed [OF assms] Let_def cmd_run_state split: option.splits)

lemma chuid_retcode_free:
  "(\<forall>c w. snd (ex' c w) = snd (ex c w)) \<Longrightarrow> chuid ex' name uid s = chuid ex name uid s"
  by (simp add: chuid_def Let_def case_prod_beta cmd_run_state split: sum.split)

lemma chgid_retcode_free:
  "(\<forall>c w. snd (ex' c w) = snd (ex c w)) \<Longrightarrow> chgid ex' name gid s = chgid ex name gid s"
  by (simp add: chgid_def Let_def case_prod_beta cmd_run_state split: sum.split)

lemma chshell_retcode_free:
  "(\<forall>c w. snd (ex' c w) = snd (ex c w)) \<Longrightarrow> chshell ex' name shell s = chshell ex name shell s"
  by (simp add: chshell_def Let_def case_prod_beta cmd_run_state split: sum.split)

lemma chhome_retcode_free:
  "(\<forall>c w. snd (ex' c w) = snd (ex c w)) \<Longrightarrow> chhome ex' name home persist s = chhome ex name home persist s"
  by (simp add: chhome_def Let_def case_prod_beta cmd_run_state split: sum.split)

text \<open>
  Claim C1. For \<^verbatim>\<open>chuid\<close>, \<^verbatim>\<open>chgid\<close>, \<^verbatim>\<open>chshell\<close> and \<^verbatim>\<open>chhome\<close>: when the user exists
  and the requested value differs from the current one, the operation runs its command
  (once) and reads the user again; given that reading, it returns false if the attribute
  is what it was before and otherwise true exactly when the attribute is the requested
  value. The exit code plays no role: two execution collaborators that leave the same
  worlds behind give the same run, whatever they report.
\<close>

theorem change_verified_by_reread:
  assumes "pwnam (os s) name = Some pre"
  shows
  "(uid \<noteq> pw_uid pre \<longrightarrow>
      executed (snd (chuid ex name uid s)) = executed s @ [chuid_cmd name uid]
    \<and> os (snd (chuid ex name uid s)) = snd (ex (chuid_cmd name uid) (os s))
    \<and> (\<forall>post. pwnam (os (snd (chuid ex name uid s))) name = Some post \<longrightarrow>
          fst (chuid ex name uid s)
            = Inr (if pw_uid post = pw_uid pre then False else pw_uid post = uid)))
   \<and> (gid \<noteq> pw_gid pre \<longrightarrow>
      executed (snd (chgid ex name gid s)) = executed s @ [chgid_cmd name gid]
    \<and> os (snd (chgid ex name gid s)) = snd (ex (chgid_cmd name gid) (os s))
    \<and> (\<forall>post. pwnam (os (snd (chgid ex name gid s))) name = Some post \<longrightarrow>
          fst (chgid ex name gid s)
            = Inr (if pw_gid post = pw_gid pre then False else pw_gid post = gid)))
   \<and> (shell \<noteq> pw_shell pre \<longrightarrow>
      executed (snd (chshell ex name shell s)) = executed s @ [chshell_cmd name shell]
    \<and> os (snd (chshell ex name shell s)) = snd (ex (chshell_cmd name shell) (os s))
    \<and> (\<forall>post. pwnam (os (snd (chshell ex name shell s))) name = Some post \<longrightarrow>
          fst (chshell ex name shell s)
            = Inr (if pw_shell post = pw_shell pre then False else pw_shell post = shell)))
   \<and> (home \<noteq> pw_dir pre \<longrightarrow>
      executed (snd (chhome ex name home persist s)) = executed s @ [chhome_cmd name home persist]
    \<and> os (snd (chhome ex name home persist s)) = snd (ex (chhome_cmd name home persist) (os s))
    \<and> (\<forall>post. pwnam (os (snd (chhome ex name home persist s))) name = Some post \<longrightarrow>
          fst (chhome ex name home persist s)
            = Inr (if pw_dir post = pw_dir pre then False else pw_dir post = home)))
   \<and> (\<forall>ex'. (\<forall>c w. snd (ex' c w) = snd (ex c w)) \<longrightarrow>
          chuid ex' name uid s = chuid ex name uid s
        \<and> chgid ex' name gid s = chgid ex name gid s
        \<and> chshell ex' name shell s = chshell ex name shell s
        \<and> chhome ex' name home persist s = chhome ex name home persist s)"
proof (intro conjI impI allI)
  fix ex' :: executor
  assume same: "\<forall>c w. snd (ex' c w) = snd (ex c w)"
  show "chuid ex' name uid s = chuid ex name uid s" by (rule chuid_retcode_free [OF same])
  show "chgid ex' name gid s = chgid ex name gid s" by (rule chgid_retcode_free [OF same])
  show "chshell ex' name shell s = chshell ex name shell s" by (rule chshell_retcode_free [OF same])
  show "chhome ex' name home persist s = chhome ex name home persist s"
    by (rule chhome_retcode_free [OF same])
qed (simp_all add: chuid_verify [OF assms] chgid_verify [OF assms] chshell_verify [OF assms]
       chhome_verify [OF assms])

lemma chgid_4376_cmd: "chgid_cmd ''alice'' 4376 = ''pw usermod -g 4376 alice''"
  by (simp add: chgid_cmd_def str_int_def str_nat.simps digit_def)

lemma chhome_users_cmd:
  "chhome_cmd ''alice'' ''/home/users/alice'' True = ''pw usermod -d /home/users/alice  -m alice''"
  by (simp add: chhome_cmd_def)

theorem change_verified_by_reread_witness:
  "pwnam (os (boot (alice_world alice []))) ''alice'' = Some alice
   \<and> 4376 \<noteq> pw_uid alice \<and> 4376 \<noteq> pw_gid alice
   \<and> ''/bin/zsh'' \<noteq> pw_shell alice \<and> ''/home/users/alice'' \<noteq> pw_dir alice
   \<and> retcode (fst (stub 1 (alice_world alice_after []) (chuid_cmd ''alice'' 4376) (alice_world alice []))) = 1
   \<and> fst (chuid (stub 1 (alice_world alice_after [])) ''alice'' 4376 (boot (alice_world alice [])))
       = Inr True
   \<and> fst (chgid (stub 1 (alice_world alice_after [])) ''alice'' 4376 (boot (alice_world alice [])))
       = Inr False
   \<and> fst (chshell (stub 1 (alice_world alice_after [])) ''alice'' ''/bin/zsh'' (boot (alice_world alice [])))
       = Inr False
   \<and> fst (chhome (stub 1 (alice_world alice_after [])) ''alice'' ''/home/users/alice'' True
            (boot (alice_world alice [])))
       = Inr True
   \<and> executed (snd (chgid (stub 1 (alice_world alice_after [])) ''alice'' 4376 (boot (alice_world alice []))))
       = [''pw usermod -g 4376 alice'']
   \<and> executed (snd (chhome (stub 1 (alice_world alice_after [])) ''alice'' ''/home/users/alice'' True
            (boot (alice_world alice []))))
       = [''pw usermod -d /home/users/alice  -m alice'']
   \<and> chgid (stub 0 (alice_world alice_after [])) ''alice'' 4376 (boot (alice_world alice []))
       = chgid (stub 1 (alice_world alice_after [])) ''alice'' 4376 (boot (alice_world alice []))"
proof -
  let ?H = "boot (alice_world alice [])"
  let ?W = "alice_world alice_after []"
  let ?ex = "stub 1 ?W"
  have pre: "pwnam (os ?H) ''alice'' = Some alice"
    by (rule alice_known)
  have ne: "4376 \<noteq> pw_uid alice" "4376 \<noteq> pw_gid alice"
    "''/bin/zsh'' \<noteq> pw_shell alice" "''/home/users/alice'' \<noteq> pw_dir alice"
    by (simp_all add: alice_def)
  have rc: "retcode (fst (?ex (chuid_cmd ''alice'' 4376) (alice_world alice []))) = 1"
    by (simp add: stub_def)
  have left: "snd (?ex c w) = ?W" for c w
    by (simp add: stub_def)
  have found: "pwnam ?W ''alice'' = Some alice_after"
    by (simp add: alice_world_def)
  have vals: "pw_uid alice_after = 4376" "pw_gid alice_after = pw_gid alice"
    "pw_shell alice_after = ''/bin/csh''" "pw_dir alice_after = ''/home/users/alice''"
    "pw_uid alice = 1000" "pw_shell alice = ''/bin/sh''" "pw_dir alice = ''/home/alice''"
    by (simp_all add: alice_after_def alice_def)
  note all = change_verified_by_reread [OF pre, where ex = ?ex and uid = 4376 and gid = 4376
      and shell = "''/bin/zsh''" and home = "''/home/users/alice''" and persist = True]
  note u = all [THEN conjunct1, THEN mp, OF ne(1)]
  note g = all [THEN conjunct2, THEN conjunct1, THEN mp, OF ne(2)]
  note sh = all [THEN conjunct2, THEN conjunct2, THEN conjunct1, THEN mp, OF ne(3)]
  note h = all [THEN conjunct2, THEN conjunct2, THEN conjunct2, THEN conjunct1, THEN mp, OF ne(4)]
  have post_u: "pwnam (os (snd (chuid ?ex ''alice'' 4376 ?H))) ''alice'' = Some alice_after"
    using u [THEN conjunct2, THEN conjunct1] by (simp add: left found)
  have post_g: "pwnam (os (snd (chgid ?ex ''alice'' 4376 ?H))) ''alice'' = Some alice_after"
    using g [THEN conjunct2, THEN conjunct1] by (simp add: left found)
  have post_sh: "pwnam (os (snd (chshell ?ex ''alice'' ''/bin/zsh'' ?H))) ''alice'' = Some alice_after"
    using sh [THEN conjunct2, THEN conjunct1] by (simp add: left found)
  have post_h: "pwnam (os (snd (chhome ?ex ''alice'' ''/home/users/alice'' True ?H))) ''alice''
                  = Some alice_after"
    using h [THEN conjunct2, THEN conjunct1] by (simp add: left found)
  have res_u: "fst (chuid ?ex ''alice'' 4376 ?H) = Inr True"
    using u [THEN conjunct2, THEN conjunct2, THEN spec, THEN mp, OF post_u] by (simp add: vals)
  have res_g: "fst (chgid ?ex ''alice'' 4376 ?H) = Inr False"
    using g [THEN conjunct2, THEN conjunct2, THEN spec, THEN mp, OF post_g] by (simp add: vals)
  have res_sh: "fst (chshell ?ex ''alice'' ''/bin/zsh'' ?H) = Inr False"
    using sh [THEN conjunct2, THEN conjunct2, THEN spec, THEN mp, OF post_sh] by (simp add: vals)
  have res_h: "fst (chhome ?ex ''alice'' ''/home/users/alice'' True ?H) = Inr True"
    using h [THEN conjunct2, THEN conjunct2, THEN spec, THEN mp, OF post_h] by (simp add: vals)
  have ran_g: "executed (snd (chgid ?ex ''alice'' 4376 ?H)) = [''pw usermod -g 4376 alice'']"
    using g [THEN conjunct1] by (simp add: boot_def chgid_4376_cmd)
  have ran_h: "executed (snd (chhome ?ex ''alice'' ''/home/users/alice'' True ?H))
                 = [''pw usermod -d /home/users/alice  -m alice'']"
    using h [THEN conjunct1] by (simp add: boot_def chhome_users_cmd)
  have same: "\<forall>c w. snd (stub 0 ?W c w) = snd (?ex c w)"
    by (simp add: stub_def)
  have free: "chgid (stub 0 ?W) ''alice'' 4376 ?H = chgid ?ex ''alice'' 4376 ?H"
    by (rule all [THEN conjunct2, THEN conjunct2, THEN conjunct2, THEN conjunct2, THEN spec, THEN mp,
        OF same, THEN conjunct2, THEN conjunct1])
  show ?thesis
    by (intro conjI pre ne rc res_u res_g res_sh res_h ran_g ran_h free)
qed

subsection \<open>chgroups\<close>

text \<open>
  Claim C7. For every user name, \<^verbatim>\<open>chgroups\<close> called with the string
  \<^verbatim>\<open>"wheel,root"\<close> and with the list \<^verbatim>\<open>["wheel", "root"]\<close> builds the same command
  line, and the two calls behave the same on every host.
\<close>

theorem chgroups_string_or_list:
  "chgroups_cmd name (split_groups (Csv ''wheel,root'')) a
     = chgroups_cmd name (split_groups (Names [''wheel'', ''root''])) a
   \<and> chgroups ex name (Csv ''wheel,root'') a s = chgroups ex name (Names [''wheel'', ''root'']) a s"
  by (simp add: chgroups_def)

lemma chgroups_changed:
  assumes "set (list_groups s name) \<noteq> set (split_groups groups)"
  shows "chgroups ex name groups a s =
    (let s' = snd (cmd_run ex (chgroups_cmd name (split_groups groups) a) s)
     in (Inr (set (list_groups s name) \<subseteq> set (list_groups s' name)), s'))"
  using assms by (simp add: chgroups_def Let_def case_prod_beta)

lemma staff_before: "list_groups (boot (alice_world alice staff_only)) ''alice'' = [''staff'']"
  by code_simp

lemma wheel_after: "list_groups \<lparr>os = alice_world alice wheel_only, executed = cmds\<rparr> ''alice'' = [''wheel'']"
  by code_simp

lemma wheel_cmd: "chgroups_cmd ''alice'' [''wheel''] False = ''pw usermod -G wheel -n alice ''"
  by (simp add: chgroups_cmd_def)

lemma wheel_after_exact:
  "set (list_groups \<lparr>os = alice_world alice wheel_only, executed = cmds\<rparr> ''alice'')
     = set (split_groups (Names [''wheel'']))"
  by (simp add: wheel_after)

text \<open>
  Claim C2. After the group command, \<^verbatim>\<open>chgroups\<close> is to return true if and only if every
  group the user is in afterwards is one of the requested groups. The code returns
  \<^verbatim>\<open>len(ugrps - agrps) == 0\<close>, the groups before the command minus the groups after it,
  and never compares with the request. So: \<open>alice\<close> is in \<open>staff\<close>,
  \<^verbatim>\<open>chgroups("alice", ["wheel"])\<close> runs its command, \<^verbatim>\<open>pw\<close> leaves her in exactly
  \<open>wheel\<close>, and the result is false; the same call on the state just reached returns
  true at once (line 183), nothing run; and when the command changes nothing the result is
  true, where \<^verbatim>\<open>chuid\<close>, \<^verbatim>\<open>chgid\<close>, \<^verbatim>\<open>chshell\<close> and \<^verbatim>\<open>chhome\<close> return false.
\<close>

theorem chgroups_replace_reports_failure:
  "list_groups (boot (alice_world alice staff_only)) ''alice'' = [''staff'']
   \<and> chgroups (stub 0 (alice_world alice wheel_only)) ''alice'' (Names [''wheel'']) False
        (boot (alice_world alice staff_only))
       = (Inr False,
          \<lparr>os = alice_world alice wheel_only, executed = [''pw usermod -G wheel -n alice '']\<rparr>)
   \<and> list_groups \<lparr>os = alice_world alice wheel_only, executed = [''pw usermod -G wheel -n alice '']\<rparr>
        ''alice'' = [''wheel'']
   \<and> chgroups (stub 0 (alice_world alice wheel_only)) ''alice'' (Names [''wheel'']) False
        \<lparr>os = alice_world alice wheel_only, executed = [''pw usermod -G wheel -n alice '']\<rparr>
       = (Inr True,
          \<lparr>os = alice_world alice wheel_only, executed = [''pw usermod -G wheel -n alice '']\<rparr>)
   \<and> chgroups (stub 0 (alice_world alice staff_only)) ''alice'' (Names [''wheel'']) False
        (boot (alice_world alice staff_only))
       = (Inr True,
          \<lparr>os = alice_world alice staff_only, executed = [''pw usermod -G wheel -n alice '']\<rparr>)"
proof -
  have differ: "set (list_groups (boot (alice_world alice staff_only)) ''alice'')
                  \<noteq> set (split_groups (Names [''wheel'']))"
    by (simp add: staff_before)
  have replaced: "snd (cmd_run (stub 0 (alice_world alice wheel_only))
                         (chgroups_cmd ''alice'' [''wheel''] False)
                         (boot (alice_world alice staff_only)))
                    = \<lparr>os = alice_world alice wheel_only, executed = [''pw usermod -G wheel -n alice '']\<rparr>"
    by (simp add: cmd_run_state wheel_cmd stub_def boot_def)
  have ignored: "snd (cmd_run (stub 0 (alice_world alice staff_only))
                         (chgroups_cmd ''alice'' [''wheel''] False)
                         (boot (alice_world alice staff_only)))
                    = \<lparr>os = alice_world alice staff_only, executed = [''pw usermod -G wheel -n alice '']\<rparr>"
    by (simp add: cmd_run_state wheel_cmd stub_def boot_def)
  have same: "list_groups \<lparr>os = alice_world alice staff_only, executed = [''pw usermod -G wheel -n alice '']\<rparr> ''alice''
                = [''staff'']"
    using staff_before by (simp add: list_groups_def getgrall_def boot_def)
  have first: "chgroups (stub 0 (alice_world alice wheel_only)) ''alice'' (Names [''wheel'']) False
        (boot (alice_world alice staff_only))
       = (Inr False,
          \<lparr>os = alice_world alice wheel_only, executed = [''pw usermod -G wheel -n alice '']\<rparr>)"
    by (simp add: chgroups_changed [OF differ] Let_def replaced staff_before wheel_after)
  have second: "chgroups (stub 0 (alice_world alice wheel_only)) ''alice'' (Names [''wheel'']) False
        \<lparr>os = alice_world alice wheel_only, executed = [''pw usermod -G wheel -n alice '']\<rparr>
       = (Inr True,
          \<lparr>os = alice_world alice wheel_only, executed = [''pw usermod -G wheel -n alice '']\<rparr>)"
    by (rule chgroups_same [OF wheel_after_exact])
  have noop: "chgroups (stub 0 (alice_world alice staff_only)) ''alice'' (Names [''wheel'']) False
        (boot (alice_world alice staff_only))
       = (Inr True,
          \<lparr>os = alice_world alice staff_only, executed = [''pw usermod -G wheel -n alice '']\<rparr>)"
    by (simp add: chgroups_changed [OF differ] Let_def ignored staff_before same)
  show ?thesis
    by (intro conjI staff_before first wheel_after second noop)
qed

subsection \<open>Exceptions\<close>

lemma chuid_absent: "pwnam (os s) name = None \<Longrightarrow> chuid ex name uid s = (Inl (KeyError name), s)"
  by (simp add: chuid_def info_None)
lemma chgid_absent: "pwnam (os s) name = None \<Longrightarrow> chgid ex name gid s = (Inl (KeyError name), s)"
  by (simp add: chgid_def info_None)
lemma chshell_absent: "pwnam (os s) name = None \<Longrightarrow> chshell ex name shell s = (Inl (KeyError name), s)"
  by (simp add: chshell_def info_None)
lemma chhome_absent: "pwnam (os s) name = None \<Longrightarrow> chhome ex name home persist s = (Inl (KeyError name), s)"
  by (simp add: chhome_def info_None)

lemma chuid_raises:
  assumes "fst (chuid ex name uid s) = Inl e"
  shows "e = KeyError name \<and> pwnam (os (snd (chuid ex name uid s))) name = None"
proof (cases "pwnam (os s) name")
  case None
  with assms show ?thesis by (simp add: chuid_absent)
next
  case (Some pre)
  show ?thesis
  proof (cases "uid = pw_uid pre")
    case True
    with Some assms show ?thesis by (simp add: chuid_same)
  next
    case False
    from assms show ?thesis
      by (simp add: chuid_changed [OF Some False] Let_def split: option.splits)
  qed
qed

lemma chgid_raises:
  assumes "fst (chgid ex name gid s) = Inl e"
  shows "e = KeyError name \<and> pwnam (os (snd (chgid ex name gid s))) name = None"
proof (cases "pwnam (os s) name")
  case None
  with assms show ?thesis by (simp add: chgid_absent)
next
  case (Some pre)
  show ?thesis
  proof (cases "gid = pw_gid pre")
    case True
    with Some assms show ?thesis by (simp add: chgid_same)
  next
    case False
    from assms show ?thesis
      by (simp add: chgid_changed [OF Some False] Let_def split: option.splits)
  qed
qed

lemma chshell_raises:
  assumes "fst (chshell ex name shell s) = Inl e"
  shows "e = KeyError name \<and> pwnam (os (snd (chshell ex name shell s))) name = None"
proof (cases "pwnam (os s) name")
  case None
  with assms show ?thesis by (simp add: chshell_absent)
next
  case (Some pre)
  show ?thesis
  proof (cases "shell = pw_shell pre")
    case True
    with Some assms show ?thesis by (simp add: chshell_same)
  next
    case False
    from assms show ?thesis
      by (simp add: chshell_changed [OF Some False] Let_def split: option.splits)
  qed
qed

lemma chhome_raises:
  assumes "fst (chhome ex name home persist s) = Inl e"
  shows "e = KeyError name \<and> pwnam (os (snd (chhome ex name home persist s))) name = None"
proof (cases "pwnam (os s) name")
  case None
  with assms show ?thesis by (simp add: chhome_absent)
next
  case (Some pre)
  show ?thesis
  proof (cases "home = pw_dir pre")
    case True
    with Some assms show ?thesis by (simp add: chhome_same)
  next
    case False
    from assms show ?thesis
      by (simp add: chhome_changed [OF Some False] Let_def split: option.splits)
  qed
qed

lemma getent_loop_first_miss:
  "find (\<lambda>d. pwnam (os s) (pw_name d) = None) ds = Some d \<Longrightarrow>
     getent_loop s ds ret = Inl (KeyError (pw_name d))"
proof (induction ds arbitrary: ret)
  case Nil
  then show ?case by simp
next
  case (Cons x xs)
  show ?case
  proof (cases "pwnam (os s) (pw_name x)")
    case None
    with Cons.prems show ?thesis by (simp add: info_None)
  next
    case (Some e)
    with Cons.prems have "find (\<lambda>d. pwnam (os s) (pw_name d) = None) xs = Some d" by simp
    from Cons.IH [OF this] Some show ?thesis by (simp add: info_Some)
  qed
qed

lemma getent_loop_raises:
  "getent_loop s ds ret = Inl e \<Longrightarrow>
     \<exists>d \<in> set ds. e = KeyError (pw_name d) \<and> pwnam (os s) (pw_name d) = None"
proof (induction ds arbitrary: ret)
  case Nil
  then show ?case by simp
next
  case (Cons x xs)
  show ?case
  proof (cases "info s (pw_name x)")
    case (Inl e')
    with Cons.prems have "e = e'" by simp
    with Inl show ?thesis by (auto simp: info_Inl_iff)
  next
    case (Inr i)
    with Cons.prems have "getent_loop s xs (ret @ [i]) = Inl e" by simp
    from Cons.IH [OF this] show ?thesis by auto
  qed
qed

lemma chgroups_returns: "\<not> isl (fst (chgroups ex name groups a s))"
  by (simp add: chgroups_def Let_def case_prod_beta)

lemma chuid_post_miss:
  assumes "pwnam (os s) name = Some pre" and "uid \<noteq> pw_uid pre"
    and "pwnam (snd (ex (chuid_cmd name uid) (os s))) name = None"
  shows "chuid ex name uid s =
    (Inl (KeyError name),
     \<lparr>os = snd (ex (chuid_cmd name uid) (os s)), executed = executed s @ [chuid_cmd name uid]\<rparr>)"
  using assms(3) by (simp add: chuid_changed [OF assms(1,2)] Let_def cmd_run_state)

lemma chgid_post_miss:
  assumes "pwnam (os s) name = Some pre" and "gid \<noteq> pw_gid pre"
    and "pwnam (snd (ex (chgid_cmd name gid) (os s))) name = None"
  shows "chgid ex name gid s =
    (Inl (KeyError name),
     \<lparr>os = snd (ex (chgid_cmd name gid) (os s)), executed = executed s @ [chgid_cmd name gid]\<rparr>)"
  using assms(3) by (simp add: chgid_changed [OF assms(1,2)] Let_def cmd_run_state)

lemma chshell_post_miss:
  assumes "pwnam (os s) name = Some pre" and "shell \<noteq> pw_shell pre"
    and "pwnam (snd (ex (chshell_cmd name shell) (os s))) name = None"
  shows "chshell ex name shell s =
    (Inl (KeyError name),
     \<lparr>os = snd (ex (chshell_cmd name shell) (os s)),
      executed = executed s @ [chshell_cmd name shell]\<rparr>)"
  using assms(3) by (simp add: chshell_changed [OF assms(1,2)] Let_def cmd_run_state)

lemma chhome_post_miss:
  assumes "pwnam (os s) name = Some pre" and "home \<noteq> pw_dir pre"
    and "pwnam (snd (ex (chhome_cmd name home persist) (os s))) name = None"
  shows "chhome ex name home persist s =
    (Inl (KeyError name),
     \<lparr>os = snd (ex (chhome_cmd name home persist) (os s)),
      executed = executed s @ [chhome_cmd name home persist]\<rparr>)"
  using assms(3) by (simp add: chhome_changed [OF assms(1,2)] Let_def cmd_run_state)

text \<open>
  Claim C9. \<^verbatim>\<open>info\<close> on a name the password database does not know fails with the
  lookup error (an exception, not a boolean), and so do \<^verbatim>\<open>chuid\<close>, \<^verbatim>\<open>chgid\<close>,
  \<^verbatim>\<open>chshell\<close> and \<^verbatim>\<open>chhome\<close>: at their first reading of the user, with nothing run,
  and at their second reading, after the command, when the user is known before the
  command and unknown after it. \<^verbatim>\<open>getent\<close> fails with the lookup error of the first
  enumerated entry whose name is not found. It is the only exception: whenever one of
  these operations raises, the error is the lookup error of a name that the password
  database does not know at that moment, and \<^verbatim>\<open>add\<close>, \<^verbatim>\<open>delete\<close> and \<^verbatim>\<open>chgroups\<close>
  never raise.
\<close>

theorem lookup_miss_is_the_only_exception:
  "(pwnam (os s) name = None \<longrightarrow>
      info s name = Inl (KeyError name)
    \<and> chuid ex name uid s = (Inl (KeyError name), s)
    \<and> chgid ex name gid s = (Inl (KeyError name), s)
    \<and> chshell ex name shell s = (Inl (KeyError name), s)
    \<and> chhome ex name home persist s = (Inl (KeyError name), s))
   \<and> (\<forall>pre. pwnam (os s) name = Some pre \<longrightarrow>
        (uid \<noteq> pw_uid pre \<and> pwnam (snd (ex (chuid_cmd name uid) (os s))) name = None \<longrightarrow>
           chuid ex name uid s =
             (Inl (KeyError name),
              \<lparr>os = snd (ex (chuid_cmd name uid) (os s)),
               executed = executed s @ [chuid_cmd name uid]\<rparr>))
      \<and> (gid \<noteq> pw_gid pre \<and> pwnam (snd (ex (chgid_cmd name gid) (os s))) name = None \<longrightarrow>
           chgid ex name gid s =
             (Inl (KeyError name),
              \<lparr>os = snd (ex (chgid_cmd name gid) (os s)),
               executed = executed s @ [chgid_cmd name gid]\<rparr>))
      \<and> (shell \<noteq> pw_shell pre \<and> pwnam (snd (ex (chshell_cmd name shell) (os s))) name = None \<longrightarrow>
           chshell ex name shell s =
             (Inl (KeyError name),
              \<lparr>os = snd (ex (chshell_cmd name shell) (os s)),
               executed = executed s @ [chshell_cmd name shell]\<rparr>))
      \<and> (home \<noteq> pw_dir pre
          \<and> pwnam (snd (ex (chhome_cmd name home persist) (os s))) name = None \<longrightarrow>
           chhome ex name home persist s =
             (Inl (KeyError name),
              \<lparr>os = snd (ex (chhome_cmd name home persist) (os s)),
               executed = executed s @ [chhome_cmd name home persist]\<rparr>)))
   \<and> (\<forall>d. find (\<lambda>d. pwnam (os s) (pw_name d) = None) (getpwall s) = Some d \<longrightarrow>
          getent s = Inl (KeyError (pw_name d)))
   \<and> (\<forall>e. info s name = Inl e \<longrightarrow> e = KeyError name \<and> pwnam (os s) name = None)
   \<and> (\<forall>e. fst (chuid ex name uid s) = Inl e \<longrightarrow>
          e = KeyError name \<and> pwnam (os (snd (chuid ex name uid s))) name = None)
   \<and> (\<forall>e. fst (chgid ex name gid s) = Inl e \<longrightarrow>
          e = KeyError name \<and> pwnam (os (snd (chgid ex name gid s))) name = None)
   \<and> (\<forall>e. fst (chshell ex name shell s) = Inl e \<longrightarrow>
          e = KeyError name \<and> pwnam (os (snd (chshell ex name shell s))) name = None)
   \<and> (\<forall>e. fst (chhome ex name home persist s) = Inl e \<longrightarrow>
          e = KeyError name \<and> pwnam (os (snd (chhome ex name home persist s))) name = None)
   \<and> (\<forall>e. getent s = Inl e \<longrightarrow>
          (\<exists>d \<in> set (getpwall s). e = KeyError (pw_name d) \<and> pwnam (os s) (pw_name d) = None))
   \<and> \<not> isl (fst (add ex name auid agid agroups ahome ashell system kwargs s))
   \<and> \<not> isl (fst (delete ex name remove force s))
   \<and> \<not> isl (fst (chgroups ex name groups a s))"
proof (intro conjI impI allI)
  fix e assume "getent s = Inl e"
  then show "\<exists>d \<in> set (getpwall s). e = KeyError (pw_name d) \<and> pwnam (os s) (pw_name d) = None"
    unfolding getent_def by (rule getent_loop_raises)
next
  fix d assume "find (\<lambda>d. pwnam (os s) (pw_name d) = None) (getpwall s) = Some d"
  then show "getent s = Inl (KeyError (pw_name d))"
    unfolding getent_def by (rule getent_loop_first_miss)
next
  fix pre assume "pwnam (os s) name = Some pre"
    and "uid \<noteq> pw_uid pre \<and> pwnam (snd (ex (chuid_cmd name uid) (os s))) name = None"
  then show "chuid ex name uid s =
             (Inl (KeyError name),
              \<lparr>os = snd (ex (chuid_cmd name uid) (os s)),
               executed = executed s @ [chuid_cmd name uid]\<rparr>)"
    by (simp add: chuid_post_miss)
next
  fix pre assume "pwnam (os s) name = Some pre"
    and "gid \<noteq> pw_gid pre \<and> pwnam (snd (ex (chgid_cmd name gid) (os s))) name = None"
  then show "chgid ex name gid s =
             (Inl (KeyError name),
              \<lparr>os = snd (ex (chgid_cmd name gid) (os s)),
               executed = executed s @ [chgid_cmd name gid]\<rparr>)"
    by (simp add: chgid_post_miss)
next
  fix pre assume "pwnam (os s) name = Some pre"
    and "shell \<noteq> pw_shell pre \<and> pwnam (snd (ex (chshell_cmd name shell) (os s))) name = None"
  then show "chshell ex name shell s =
             (Inl (KeyError name),
              \<lparr>os = snd (ex (chshell_cmd name shell) (os s)),
               executed = executed s @ [chshell_cmd name shell]\<rparr>)"
    by (simp add: chshell_post_miss)
next
  fix pre assume "pwnam (os s) name = Some pre"
    and "home \<noteq> pw_dir pre \<and> pwnam (snd (ex (chhome_cmd name home persist) (os s))) name = None"
  then show "chhome ex name home persist s =
             (Inl (KeyError name),
              \<lparr>os = snd (ex (chhome_cmd name home persist) (os s)),
               executed = executed s @ [chhome_cmd name home persist]\<rparr>)"
    by (simp add: chhome_post_miss)
qed (simp_all add: info_None chuid_absent chgid_absent chshell_absent chhome_absent info_Inl_iff
       chuid_raises chgid_raises chshell_raises chhome_raises add_unfold delete_unfold
       chgroups_returns)

lemma chuid_4376_cmd: "chuid_cmd ''alice'' 4376 = ''pw usermod -u 4376 alice''"
  by (simp add: chuid_cmd_def str_int_def str_nat.simps digit_def)

theorem lookup_miss_is_the_only_exception_witness:
  "pwnam (os (boot stale_world)) ''alice'' = None
   \<and> info (boot stale_world) ''alice'' = Inl (KeyError ''alice'')
   \<and> fst (chuid (stub 0 stale_world) ''alice'' 4376 (boot stale_world)) = Inl (KeyError ''alice'')
   \<and> fst (chhome (stub 0 stale_world) ''alice'' ''/home/users/alice'' True (boot stale_world))
       = Inl (KeyError ''alice'')
   \<and> executed (snd (chgid (stub 0 stale_world) ''alice'' 4376 (boot stale_world))) = []
   \<and> find (\<lambda>d. pwnam (os (boot stale_world)) (pw_name d) = None) (getpwall (boot stale_world))
       = Some alice
   \<and> getent (boot stale_world) = Inl (KeyError ''alice'')
   \<and> pwnam (os (boot (alice_world alice []))) ''alice'' = Some alice
   \<and> 4376 \<noteq> pw_uid alice
   \<and> pwnam (snd (stub 0 stale_world (chuid_cmd ''alice'' 4376) (os (boot (alice_world alice [])))))
        ''alice'' = None
   \<and> chuid (stub 0 stale_world) ''alice'' 4376 (boot (alice_world alice []))
       = (Inl (KeyError ''alice''), \<lparr>os = stale_world, executed = [''pw usermod -u 4376 alice'']\<rparr>)"
proof -
  have absent: "pwnam (os (boot stale_world)) ''alice'' = None"
    by (simp add: boot_def stale_world_def)
  have miss: "find (\<lambda>d. pwnam (os (boot stale_world)) (pw_name d) = None) (getpwall (boot stale_world))
       = Some alice"
    by (simp add: boot_def stale_world_def getpwall_def)
  note t = lookup_miss_is_the_only_exception [where s = "boot stale_world" and name = "''alice''"
      and ex = "stub 0 stale_world" and uid = 4376 and gid = 4376
      and home = "''/home/users/alice''" and persist = True]
  note a = t [THEN conjunct1, THEN mp, OF absent]
  note g = t [THEN conjunct2, THEN conjunct2, THEN conjunct1, THEN spec, THEN mp, OF miss]
  have known: "pwnam (os (boot (alice_world alice []))) ''alice'' = Some alice"
    by (rule alice_known)
  have ne: "4376 \<noteq> pw_uid alice"
    by (simp add: alice_def)
  have gone: "pwnam (snd (stub 0 stale_world (chuid_cmd ''alice'' 4376) (os (boot (alice_world alice [])))))
        ''alice'' = None"
    by (simp add: stub_def stale_world_def)
  note p = lookup_miss_is_the_only_exception [where s = "boot (alice_world alice [])"
      and name = "''alice''" and ex = "stub 0 stale_world" and uid = 4376,
      THEN conjunct2, THEN conjunct1, THEN spec, THEN mp, OF known, THEN conjunct1, THEN mp,
      OF conjI [OF ne gone]]
  have later: "chuid (stub 0 stale_world) ''alice'' 4376 (boot (alice_world alice []))
       = (Inl (KeyError ''alice''), \<lparr>os = stale_world, executed = [''pw usermod -u 4376 alice'']\<rparr>)"
    using p by (simp add: stub_def boot_def chuid_4376_cmd)
  have first: "info (boot stale_world) ''alice'' = Inl (KeyError ''alice'')
   \<and> fst (chuid (stub 0 stale_world) ''alice'' 4376 (boot stale_world)) = Inl (KeyError ''alice'')
   \<and> fst (chhome (stub 0 stale_world) ''alice'' ''/home/users/alice'' True (boot stale_world))
       = Inl (KeyError ''alice'')
   \<and> executed (snd (chgid (stub 0 stale_world) ''alice'' 4376 (boot stale_world))) = []"
    using a by (simp add: boot_def)
  have ent: "getent (boot stale_world) = Inl (KeyError ''alice'')"
    using g by (simp add: alice_def)
  from absent first miss ent known ne gone later show ?thesis by blast
qed

end
